theory Spec2Isabelle
  imports Main "HOL-Library.Word"
begin

section \<open>Character types and type tags\<close>

text \<open>
  The header \<^verbatim>\<open>utf42.h\<close> works on the five character types of C++. A code unit is a
  machine word: \<^verbatim>\<open>char\<close> and \<^verbatim>\<open>char8_t\<close> have 8 bits, \<^verbatim>\<open>char16_t\<close> 16 and
  \<^verbatim>\<open>char32_t\<close> 32. The width of \<^verbatim>\<open>wchar_t\<close> depends on the platform, so its
  code unit stays a type parameter \<open>'w\<close> (\<open>32 word\<close> on Linux, \<open>16 word\<close> on Windows).
\<close>

type_synonym char_c = "8 word"
type_synonym char8_t = "8 word"
type_synonym char16_t = "16 word"
type_synonym char32_t = "32 word"

text \<open>
  A template argument \<^verbatim>\<open>char_t\<close> is a type, chosen at compile time. It is modelled by a
  tag: one constructor for each character type, and \<open>T_other name\<close> for every other
  type (\<^verbatim>\<open>int\<close>, \<^verbatim>\<open>unsigned char\<close>, ...).
\<close>

datatype char_type =
    T_char
  | T_wchar_t
  | T_char8_t
  | T_char16_t
  | T_char32_t
  | T_other string

text \<open>\<^verbatim>\<open>is_char\<close>, \<^verbatim>\<open>is_char_v\<close> and the concept \<^verbatim>\<open>CharType\<close> (C++20 branch).\<close>

definition is_char_v :: "char_type \<Rightarrow> bool" where
  "is_char_v T \<longleftrightarrow>
     T = T_char \<or> T = T_wchar_t \<or> T = T_char8_t \<or> T = T_char16_t \<or> T = T_char32_t"

definition CharType :: "char_type \<Rightarrow> bool" where
  "CharType T \<longleftrightarrow> is_char_v T"

section \<open>String views\<close>

text \<open>
  A view is a pointer to character data and a length; it owns nothing. The pointer
  \<^verbatim>\<open>m_pData\<close> is modelled by what can be read through it: the list of the code units of
  the array it points into, from the pointee to the end of the array. Reading
  \<^verbatim>\<open>m_pData[i]\<close> past the end of that array is undefined behaviour in C++; \<open>deref\<close>
  returns \<open>None\<close> there. A null pointer is the empty list (nothing can be read).

  The same record stands for \<^verbatim>\<open>std::basic_string_view\<close> (C++17 and C++20 branches) and
  for the fallback \<^verbatim>\<open>utf42::basic_string_view\<close> (C++14 and C++11 branches), whose two
  private members give the field names. \<^verbatim>\<open>size_type\<close> is \<^verbatim>\<open>std::size_t\<close>; the only
  arithmetic on it is \<^verbatim>\<open>++\<close> below an array extent and \<^verbatim>\<open>N - 1\<close> under \<^verbatim>\<open>N > 0\<close>, so
  it never wraps and is modelled by \<open>nat\<close>.
\<close>

record 'c basic_string_view =
  m_pData :: "'c list"
  m_nSize :: nat

definition deref :: "'c list \<Rightarrow> nat \<Rightarrow> 'c option" where
  "deref p i = (if i < length p then Some (p ! i) else None)"

text \<open>
  What a call can end with at run time, apart from a value: the exception
  \<^verbatim>\<open>std::out_of_range\<close>, or a read outside the viewed array (undefined behaviour).
\<close>

datatype runtime_error = Out_of_range | Undefined_read

text \<open>What an instantiation can end with at compile time, instead of a function.\<close>

datatype compile_error = Constraint_not_satisfied | Static_assert_failed

subsection \<open>Constructors of the fallback view\<close>

text \<open>
  \<^verbatim>\<open>str_len\<close> (C++14 branch):
  \<^verbatim>\<open>size_type nLength = 0; while (pStr[nLength] != '\0') ++nLength; return nLength;\<close>
  The loop reads on until it meets a null; on data without one it reads past the array.
\<close>

function str_len_loop :: "'c::zero list \<Rightarrow> nat \<Rightarrow> nat option" where
  "str_len_loop pStr nLength =
     (case deref pStr nLength of
        None \<Rightarrow> None
      | Some c \<Rightarrow> if c \<noteq> 0 then str_len_loop pStr (nLength + 1) else Some nLength)"
  by pat_completeness auto
termination
  by (relation "measure (\<lambda>(pStr, nLength). length pStr - nLength)")
     (auto simp: deref_def split: if_splits)

declare str_len_loop.simps [simp del]

definition str_len :: "'c::zero list \<Rightarrow> nat option" where
  "str_len pStr = str_len_loop pStr 0"

text \<open>
  Default constructor: \<^verbatim>\<open>m_pData("")\<close>, \<^verbatim>\<open>m_nSize(0)\<close>. The initialiser is a narrow
  literal, the array of one null; it converts to \<^verbatim>\<open>const char_t *\<close> for \<^verbatim>\<open>char\<close> only, so
  the constructor exists at that type.
\<close>

definition basic_string_view_default :: "char_c basic_string_view" where
  "basic_string_view_default = \<lparr>m_pData = [0], m_nSize = 0\<rparr>"

text \<open>
  C++14 branch, \<^verbatim>\<open>basic_string_view(const char_t *pStr)\<close>:
  \<^verbatim>\<open>m_pData(pStr), m_nSize(str_len(pStr))\<close>.
\<close>

definition basic_string_view_ptr :: "'c::zero list \<Rightarrow> 'c basic_string_view option" where
  "basic_string_view_ptr pStr =
     (case str_len pStr of
        None \<Rightarrow> None
      | Some n \<Rightarrow> Some \<lparr>m_pData = pStr, m_nSize = n\<rparr>)"

text \<open>
  C++14 branch, \<^verbatim>\<open>basic_string_view(const char_t *pStr, const size_type nLength)\<close>.
\<close>

definition basic_string_view_ptr_len :: "'c list \<Rightarrow> nat \<Rightarrow> 'c basic_string_view" where
  "basic_string_view_ptr_len pStr nLength = \<lparr>m_pData = pStr, m_nSize = nLength\<rparr>"

text \<open>
  C++11 branch, \<^verbatim>\<open>template<std::size_t N> basic_string_view(const char_t (&pStr)[N])\<close>:
  \<^verbatim>\<open>m_pData(pStr), m_nSize(N - 1)\<close> under \<^verbatim>\<open>static_assert(N > 0)\<close>. The array of
  extent \<open>N\<close> is the list; \<open>N\<close> is its length.
\<close>

definition basic_string_view_array :: "'c list \<Rightarrow> compile_error + 'c basic_string_view" where
  "basic_string_view_array pStr =
     (let N = length pStr
      in if \<not> N > 0 then Inl Static_assert_failed
         else Inr \<lparr>m_pData = pStr, m_nSize = N - 1\<rparr>)"

subsection \<open>Operations of the fallback view\<close>

text \<open>The C++14 and the C++11 branch have the same bodies for all of them.\<close>

definition length_sv :: "'c basic_string_view \<Rightarrow> nat" where
  "length_sv this = m_nSize this"

definition data :: "'c basic_string_view \<Rightarrow> 'c list" where
  "data this = m_pData this"

definition operator_bool :: "'c basic_string_view \<Rightarrow> bool" where
  "operator_bool this \<longleftrightarrow> m_nSize this > 0"

definition empty :: "'c basic_string_view \<Rightarrow> bool" where
  "empty this \<longleftrightarrow> m_nSize this = 0"

text \<open>
  \<^verbatim>\<open>operator[]\<close> and \<^verbatim>\<open>at\<close>:
  \<^verbatim>\<open>if (pos >= m_nSize) throw std::out_of_range(...); return m_pData[pos];\<close>
\<close>

definition operator_index :: "'c basic_string_view \<Rightarrow> nat \<Rightarrow> runtime_error + 'c" where
  "operator_index this pos =
     (if pos \<ge> m_nSize this then Inl Out_of_range
      else case deref (m_pData this) pos of
             None \<Rightarrow> Inl Undefined_read
           | Some c \<Rightarrow> Inr c)"

definition at :: "'c basic_string_view \<Rightarrow> nat \<Rightarrow> runtime_error + 'c" where
  "at this pos =
     (if pos \<ge> m_nSize this then Inl Out_of_range
      else case deref (m_pData this) pos of
             None \<Rightarrow> Inl Undefined_read
           | Some c \<Rightarrow> Inr c)"

text \<open>
  \<^verbatim>\<open>operator==\<close>:
  \<^verbatim>\<open>if (m_nSize != other.m_nSize) return false;\<close>
  \<^verbatim>\<open>for (size_type i = 0; i < m_nSize; ++i) if (m_pData[i] != other.m_pData[i]) return false;\<close>
  \<^verbatim>\<open>return true;\<close>
  The result is \<open>None\<close> when the loop reads outside one of the two arrays.
\<close>

function eq_loop :: "'c list \<Rightarrow> 'c list \<Rightarrow> nat \<Rightarrow> nat \<Rightarrow> bool option" where
  "eq_loop p q n i =
     (if i < n then
        (case deref p i of
           None \<Rightarrow> None
         | Some x \<Rightarrow>
             (case deref q i of
                None \<Rightarrow> None
              | Some y \<Rightarrow> if x \<noteq> y then Some False else eq_loop p q n (i + 1)))
      else Some True)"
  by pat_completeness auto
termination
  by (relation "measure (\<lambda>(p, q, n, i). n - i)") auto

declare eq_loop.simps [simp del]

definition operator_eq :: "'c basic_string_view \<Rightarrow> 'c basic_string_view \<Rightarrow> bool option" where
  "operator_eq this other =
     (if m_nSize this \<noteq> m_nSize other then Some False
      else eq_loop (m_pData this) (m_pData other) (m_nSize this) 0)"

definition operator_ne :: "'c basic_string_view \<Rightarrow> 'c basic_string_view \<Rightarrow> bool option" where
  "operator_ne this other = map_option Not (operator_eq this other)"

text \<open>
  \<^verbatim>\<open>str\<close>: \<^verbatim>\<open>return std::basic_string<char_t>(m_pData, m_nSize);\<close>
  The constructor of \<^verbatim>\<open>std::basic_string\<close> that it calls belongs to the standard
  library, not to this header, so it is a parameter of the model: a function of the
  pointer and the count, whose result (a string or an exception) \<^verbatim>\<open>str\<close> passes on.
\<close>

definition str :: "('c list \<Rightarrow> nat \<Rightarrow> 'r) \<Rightarrow> 'c basic_string_view \<Rightarrow> 'r" where
  "str basic_string this = basic_string (m_pData this) (m_nSize this)"

text \<open>A view is well formed when its length does not exceed the data it points to.\<close>

definition wf_view :: "'c basic_string_view \<Rightarrow> bool" where
  "wf_view v \<longleftrightarrow> m_nSize v \<le> length (m_pData v)"

section \<open>The aggregate \<^verbatim>\<open>poly_enc\<close>\<close>

text \<open>
  A view of any of the character types, as returned by \<^verbatim>\<open>visit<char_t>\<close>: the return type
  \<^verbatim>\<open>basic_string_view<char_t>\<close> depends on the template argument. \<open>View_default T\<close> is
  the default-constructed (empty) view of another character type \<open>T\<close>.
\<close>

datatype 'w any_view =
    View_char "char_c basic_string_view"
  | View_wchar_t "'w basic_string_view"
  | View_char8_t "char8_t basic_string_view"
  | View_char16_t "char16_t basic_string_view"
  | View_char32_t "char32_t basic_string_view"
  | View_default char_type

subsection \<open>C++20 branch\<close>

record 'w poly_enc =
  TXT_CHAR :: "char_c basic_string_view"
  TXT_CHAR_W :: "'w basic_string_view"
  TXT_CHAR_8 :: "char8_t basic_string_view"
  TXT_CHAR_16 :: "char16_t basic_string_view"
  TXT_CHAR_32 :: "char32_t basic_string_view"

text \<open>The constructor copies its five arguments into the five fields.\<close>

definition poly_enc_ctor ::
  "char_c basic_string_view \<Rightarrow> 'w basic_string_view \<Rightarrow> char8_t basic_string_view \<Rightarrow>
   char16_t basic_string_view \<Rightarrow> char32_t basic_string_view \<Rightarrow> 'w poly_enc" where
  "poly_enc_ctor txt_char txt_char_w txt_char_8 txt_char_16 txt_char_32 =
     \<lparr>TXT_CHAR = txt_char,
      TXT_CHAR_W = txt_char_w,
      TXT_CHAR_8 = txt_char_8,
      TXT_CHAR_16 = txt_char_16,
      TXT_CHAR_32 = txt_char_32\<rparr>"

text \<open>
  \<^verbatim>\<open>template<CharType char_t> visit() const noexcept\<close>: an \<^verbatim>\<open>if constexpr\<close> chain over
  the type, behind the constraint \<^verbatim>\<open>CharType\<close>. A member function is modelled by
  state passing: it takes the object and returns its result together with the object
  after the call. The result is a compile-time error when the instantiation is rejected.
\<close>

definition visit ::
  "char_type \<Rightarrow> 'w poly_enc \<Rightarrow> (compile_error + 'w any_view) \<times> 'w poly_enc" where
  "visit char_t this =
     (if \<not> CharType char_t then (Inl Constraint_not_satisfied, this)
      else if char_t = T_char then (Inr (View_char (TXT_CHAR this)), this)
      else if char_t = T_wchar_t then (Inr (View_wchar_t (TXT_CHAR_W this)), this)
      else if char_t = T_char8_t then (Inr (View_char8_t (TXT_CHAR_8 this)), this)
      else if char_t = T_char16_t then (Inr (View_char16_t (TXT_CHAR_16 this)), this)
      else if char_t = T_char32_t then (Inr (View_char32_t (TXT_CHAR_32 this)), this)
      else (Inr (View_default char_t), this))"

text \<open>
  \<^verbatim>\<open>template<CharType char_t> consteval visit_poly_enc(const poly_enc &oPolyEnv)\<close>:
  \<^verbatim>\<open>return oPolyEnv.visit<char_t>();\<close>
\<close>

definition visit_poly_enc ::
  "char_type \<Rightarrow> 'w poly_enc \<Rightarrow> (compile_error + 'w any_view) \<times> 'w poly_enc" where
  "visit_poly_enc char_t oPolyEnv =
     (if \<not> CharType char_t then (Inl Constraint_not_satisfied, oPolyEnv)
      else visit char_t oPolyEnv)"

subsection \<open>C++17, C++14 and C++11 branches\<close>

text \<open>
  Before C++20 there is no \<^verbatim>\<open>char8_t\<close>; the struct has four fields. The three branches
  declare the same fields and the same constructor. (The fields carry a prime here,
  since the names without one are those of the C++20 struct.)
\<close>

record 'w poly_enc' =
  TXT_CHAR' :: "char_c basic_string_view"
  TXT_CHAR_W' :: "'w basic_string_view"
  TXT_CHAR_16' :: "char16_t basic_string_view"
  TXT_CHAR_32' :: "char32_t basic_string_view"

definition poly_enc_ctor' ::
  "char_c basic_string_view \<Rightarrow> 'w basic_string_view \<Rightarrow>
   char16_t basic_string_view \<Rightarrow> char32_t basic_string_view \<Rightarrow> 'w poly_enc'" where
  "poly_enc_ctor' txt_char txt_char_w txt_char_16 txt_char_32 =
     \<lparr>TXT_CHAR' = txt_char,
      TXT_CHAR_W' = txt_char_w,
      TXT_CHAR_16' = txt_char_16,
      TXT_CHAR_32' = txt_char_32\<rparr>"

text \<open>
  C++17 branch: \<^verbatim>\<open>template<typename char_t> visit() const noexcept\<close>. There is no
  constraint; the body is the \<^verbatim>\<open>if constexpr\<close> chain, whose last \<^verbatim>\<open>else\<close> returns an
  empty view, followed by a \<^verbatim>\<open>static_assert\<close> that \<^verbatim>\<open>char_t\<close> is one of the four types.
  The assertion is a declaration of the body, outside the chain: it is checked whenever
  the template is instantiated, whatever the chain selects.
\<close>

definition visit_17 ::
  "char_type \<Rightarrow> 'w poly_enc' \<Rightarrow> (compile_error + 'w any_view) \<times> 'w poly_enc'" where
  "visit_17 char_t this =
     (let r = (if char_t = T_char then Inr (View_char (TXT_CHAR' this))
               else if char_t = T_wchar_t then Inr (View_wchar_t (TXT_CHAR_W' this))
               else if char_t = T_char16_t then Inr (View_char16_t (TXT_CHAR_16' this))
               else if char_t = T_char32_t then Inr (View_char32_t (TXT_CHAR_32' this))
               else Inr (View_default char_t))
      in if \<not> (char_t = T_char \<or> char_t = T_wchar_t \<or>
                char_t = T_char16_t \<or> char_t = T_char32_t)
         then (Inl Static_assert_failed, this)
         else (r, this))"

definition visit_poly_enc_17 ::
  "char_type \<Rightarrow> 'w poly_enc' \<Rightarrow> (compile_error + 'w any_view) \<times> 'w poly_enc'" where
  "visit_poly_enc_17 char_t oPolyEnv = visit_17 char_t oPolyEnv"

text \<open>
  C++14 and C++11 branches: \<^verbatim>\<open>visit\<close> is declared in the struct and defined after it,
  by one explicit specialisation for each of the four types and a primary template
  for all other types, whose body starts with \<^verbatim>\<open>static_assert(false, ...)\<close>.
\<close>

fun visit_14 ::
  "char_type \<Rightarrow> 'w poly_enc' \<Rightarrow> (compile_error + 'w any_view) \<times> 'w poly_enc'" where
  "visit_14 T_char this = (Inr (View_char (TXT_CHAR' this)), this)"
| "visit_14 T_wchar_t this = (Inr (View_wchar_t (TXT_CHAR_W' this)), this)"
| "visit_14 T_char16_t this = (Inr (View_char16_t (TXT_CHAR_16' this)), this)"
| "visit_14 T_char32_t this = (Inr (View_char32_t (TXT_CHAR_32' this)), this)"
| "visit_14 _ this = (Inl Static_assert_failed, this)"

definition visit_poly_enc_14 ::
  "char_type \<Rightarrow> 'w poly_enc' \<Rightarrow> (compile_error + 'w any_view) \<times> 'w poly_enc'" where
  "visit_poly_enc_14 char_t oPolyEnv = visit_14 char_t oPolyEnv"

section \<open>Example values\<close>

text \<open>
  The one-character literal \<^verbatim>\<open>"\U0001F600"\<close> (the non-ASCII character of the literal
  used by \<^verbatim>\<open>test.cpp\<close> and \<^verbatim>\<open>main.cpp\<close>) in its five encodings, each with its
  terminating null, on a platform with UTF-8 narrow literals and a 32-bit \<^verbatim>\<open>wchar_t\<close>.
\<close>

definition ex_char :: "char_c basic_string_view" where
  "ex_char = \<lparr>m_pData = [0xF0, 0x9F, 0x98, 0x80, 0], m_nSize = 4\<rparr>"

definition ex_wchar_t :: "32 word basic_string_view" where
  "ex_wchar_t = \<lparr>m_pData = [0x1F600, 0], m_nSize = 1\<rparr>"

definition ex_char8_t :: "char8_t basic_string_view" where
  "ex_char8_t = \<lparr>m_pData = [0xF0, 0x9F, 0x98, 0x80, 0], m_nSize = 4\<rparr>"

definition ex_char16_t :: "char16_t basic_string_view" where
  "ex_char16_t = \<lparr>m_pData = [0xD83D, 0xDE00, 0], m_nSize = 2\<rparr>"

definition ex_char32_t :: "char32_t basic_string_view" where
  "ex_char32_t = \<lparr>m_pData = [0x1F600, 0], m_nSize = 1\<rparr>"

definition ex_poly_enc :: "32 word poly_enc" where
  "ex_poly_enc = poly_enc_ctor ex_char ex_wchar_t ex_char8_t ex_char16_t ex_char32_t"

definition ex_poly_enc' :: "32 word poly_enc'" where
  "ex_poly_enc' = poly_enc_ctor' ex_char ex_wchar_t ex_char16_t ex_char32_t"

text \<open>
  A second aggregate with the same contents in other storage: views of the first
  character of the literal \<^verbatim>\<open>"\U0001F600!"\<close>, built from pointer and length.
\<close>

definition ex_poly_enc_b :: "32 word poly_enc" where
  "ex_poly_enc_b =
     poly_enc_ctor
       (basic_string_view_ptr_len [0xF0, 0x9F, 0x98, 0x80, 0x21, 0] 4)
       (basic_string_view_ptr_len [0x1F600, 0x21, 0] 1)
       (basic_string_view_ptr_len [0xF0, 0x9F, 0x98, 0x80, 0x21, 0] 4)
       (basic_string_view_ptr_len [0xD83D, 0xDE00, 0x21, 0] 2)
       (basic_string_view_ptr_len [0x1F600, 0x21, 0] 1)"

text \<open>
  An example of the library constructor \<^verbatim>\<open>std::basic_string(const CharT *s, size_type count)\<close>
  as the C++ standard describes it: it throws \<^verbatim>\<open>std::length_error\<close> when \<open>count\<close>
  exceeds \<^verbatim>\<open>max_size()\<close> and \<^verbatim>\<open>std::bad_alloc\<close> when the allocation fails, and
  otherwise copies the first \<open>count\<close> code units at \<open>s\<close> (reading past the array is
  undefined behaviour).
\<close>

datatype string_error = Length_error | Bad_alloc | Undefined_copy

definition ex_basic_string ::
  "nat \<Rightarrow> bool \<Rightarrow> 'c list \<Rightarrow> nat \<Rightarrow> string_error + 'c list" where
  "ex_basic_string max_size can_allocate s count =
     (if count > max_size then Inl Length_error
      else if \<not> can_allocate then Inl Bad_alloc
      else if count > length s then Inl Undefined_copy
      else Inr (take count s))"

section \<open>Facts about the loops\<close>

text \<open>
  \<^verbatim>\<open>str_len\<close> stops at the first null of the data: it returns its index when there is
  one, and reads outside the array when there is none.
\<close>

lemma str_len_loop_first_null:
  "i \<le> k \<Longrightarrow> k < length s \<Longrightarrow> s ! k = 0 \<Longrightarrow> (\<forall>j. i \<le> j \<and> j < k \<longrightarrow> s ! j \<noteq> 0) \<Longrightarrow>
   str_len_loop s i = Some k"
proof (induction s i rule: str_len_loop.induct)
  case (1 pStr nLength)
  have in_range: "nLength < length pStr" using 1 by simp
  show ?case
  proof (cases "pStr ! nLength = 0")
    case True
    have "nLength = k"
    proof (rule ccontr)
      assume "nLength \<noteq> k"
      then have "nLength < k" using "1.prems"(1) by simp
      then have "pStr ! nLength \<noteq> 0" using "1.prems"(4) by simp
      then show False using True by simp
    qed
    then show ?thesis using True in_range
      by (subst str_len_loop.simps) (simp add: deref_def)
  next
    case False
    then have "nLength \<noteq> k" using 1 by auto
    then have "nLength + 1 \<le> k" using 1 by simp
    moreover have "deref pStr nLength = Some (pStr ! nLength)"
      using in_range by (simp add: deref_def)
    ultimately have "str_len_loop pStr (nLength + 1) = Some k"
      using 1 False by simp
    then show ?thesis using False in_range
      by (subst str_len_loop.simps) (simp add: deref_def)
  qed
qed

lemma str_len_loop_no_null:
  "(\<forall>j. i \<le> j \<and> j < length s \<longrightarrow> s ! j \<noteq> 0) \<Longrightarrow> str_len_loop s i = None"
proof (induction s i rule: str_len_loop.induct)
  case (1 pStr nLength)
  show ?case
  proof (cases "nLength < length pStr")
    case True
    then have d: "deref pStr nLength = Some (pStr ! nLength)" by (simp add: deref_def)
    have nz: "pStr ! nLength \<noteq> 0" using 1 True by simp
    have "str_len_loop pStr (nLength + 1) = None"
      using 1 d nz by simp
    then show ?thesis using d nz by (subst str_len_loop.simps) simp
  next
    case False
    then show ?thesis by (subst str_len_loop.simps) (simp add: deref_def)
  qed
qed

lemma str_len_terminated:
  assumes "k < length s" and "s ! k = 0"
  shows "\<exists>n\<le>k. str_len s = Some n \<and> s ! n = 0 \<and> (\<forall>j<n. s ! j \<noteq> 0)"
proof -
  define n where "n = (LEAST j. s ! j = 0)"
  have n0: "s ! n = 0" unfolding n_def using assms(2) by (rule LeastI)
  have nk: "n \<le> k" unfolding n_def using assms(2) by (rule Least_le)
  have before: "\<forall>j<n. s ! j \<noteq> 0"
    unfolding n_def using not_less_Least by blast
  have "str_len_loop s 0 = Some n"
    using nk assms(1) n0 before by (intro str_len_loop_first_null) simp_all
  then show ?thesis using nk n0 before by (auto simp: str_len_def)
qed

text \<open>
  The comparison loop of \<^verbatim>\<open>operator==\<close>: on data that reaches as far as the length
  compared it decides whether the code units agree; it is symmetric; it returns true
  exactly when every position can be read on both sides with the same code unit.
\<close>

lemma eq_loop_wf:
  "n \<le> length p \<Longrightarrow> n \<le> length q \<Longrightarrow>
   eq_loop p q n i = Some (\<forall>j. i \<le> j \<and> j < n \<longrightarrow> p ! j = q ! j)"
proof (induction p q n i rule: eq_loop.induct)
  case (1 p q n i)
  show ?case
  proof (cases "i < n")
    case False
    then show ?thesis by (subst eq_loop.simps) auto
  next
    case True
    then have dp: "deref p i = Some (p ! i)" and dq: "deref q i = Some (q ! i)"
      using 1 by (simp_all add: deref_def)
    show ?thesis
    proof (cases "p ! i = q ! i")
      case False
      then show ?thesis using True dp dq
        by (subst eq_loop.simps) auto
    next
      case same: True
      have "eq_loop p q n (i + 1) = Some (\<forall>j. i + 1 \<le> j \<and> j < n \<longrightarrow> p ! j = q ! j)"
        using 1 True dp dq same by simp
      moreover have "(\<forall>j. i + 1 \<le> j \<and> j < n \<longrightarrow> p ! j = q ! j) \<longleftrightarrow>
                     (\<forall>j. i \<le> j \<and> j < n \<longrightarrow> p ! j = q ! j)"
      proof (intro iffI allI impI)
        fix j assume h: "\<forall>j. i + 1 \<le> j \<and> j < n \<longrightarrow> p ! j = q ! j" and j: "i \<le> j \<and> j < n"
        show "p ! j = q ! j"
        proof (cases "j = i")
          case True
          then show ?thesis using same by simp
        next
          case False
          then have "i + 1 \<le> j" using j by simp
          then show ?thesis using h j by simp
        qed
      next
        fix j assume h: "\<forall>j. i \<le> j \<and> j < n \<longrightarrow> p ! j = q ! j" and j: "i + 1 \<le> j \<and> j < n"
        then show "p ! j = q ! j" by simp
      qed
      ultimately show ?thesis using True dp dq same
        by (subst eq_loop.simps) simp
    qed
  qed
qed

lemma eq_loop_sym: "eq_loop p q n i = eq_loop q p n i"
proof (induction p q n i rule: eq_loop.induct)
  case (1 p q n i)
  show ?case
  proof (cases "i < n")
    case False
    then show ?thesis by (simp add: eq_loop.simps [of p q n i] eq_loop.simps [of q p n i])
  next
    case True
    show ?thesis
    proof (cases "deref p i")
      case None
      then show ?thesis using True
        by (simp add: eq_loop.simps [of p q n i] eq_loop.simps [of q p n i] split: option.splits)
    next
      case (Some x)
      note px = this
      show ?thesis
      proof (cases "deref q i")
        case None
        then show ?thesis using True px
          by (simp add: eq_loop.simps [of p q n i] eq_loop.simps [of q p n i])
      next
        case (Some y)
        show ?thesis
        proof (cases "x = y")
          case False
          then have "y \<noteq> x" by simp
          then show ?thesis using True px Some False
            by (simp add: eq_loop.simps [of p q n i] eq_loop.simps [of q p n i])
        next
          case same: True
          have "eq_loop p q n (i + 1) = eq_loop q p n (i + 1)"
            using "1.IH" [OF True px Some] same by simp
          then show ?thesis using True px Some same
            by (simp add: eq_loop.simps [of p q n i] eq_loop.simps [of q p n i])
        qed
      qed
    qed
  qed
qed

lemma eq_loop_True_reads:
  "eq_loop p q n i = Some True \<Longrightarrow> i \<le> j \<Longrightarrow> j < n \<Longrightarrow>
   \<exists>c. deref p j = Some c \<and> deref q j = Some c"
proof (induction p q n i rule: eq_loop.induct)
  case (1 p q n i)
  have lt: "i < n" using "1.prems" by simp
  from "1.prems"(1) lt obtain x where px: "deref p i = Some x"
    by (subst (asm) eq_loop.simps) (auto split: option.splits)
  from "1.prems"(1) lt px obtain y where qy: "deref q i = Some y"
    by (subst (asm) eq_loop.simps) (auto split: option.splits)
  from "1.prems"(1) lt px qy have same: "x = y"
    by (subst (asm) eq_loop.simps) (auto split: if_splits)
  from "1.prems"(1) lt px qy same have rest: "eq_loop p q n (i + 1) = Some True"
    by (subst (asm) eq_loop.simps) simp
  show ?case
  proof (cases "j = i")
    case True
    then show ?thesis using px qy same by simp
  next
    case False
    then have "i + 1 \<le> j" using "1.prems"(2) by simp
    moreover have "\<not> x \<noteq> y" using same by simp
    ultimately show ?thesis using "1.IH" [OF lt px qy _ rest _ "1.prems"(3)] by blast
  qed
qed

lemma eq_loop_True_intro:
  "(\<And>j. i \<le> j \<Longrightarrow> j < n \<Longrightarrow> \<exists>c. deref p j = Some c \<and> deref q j = Some c) \<Longrightarrow>
   eq_loop p q n i = Some True"
proof (induction p q n i rule: eq_loop.induct)
  case (1 p q n i)
  show ?case
  proof (cases "i < n")
    case False
    then show ?thesis by (subst eq_loop.simps) simp
  next
    case True
    then obtain c where pc: "deref p i = Some c" and qc: "deref q i = Some c"
      using "1.prems" [of i] by auto
    have "eq_loop p q n (i + 1) = Some True"
    proof (rule "1.IH" [OF True pc qc])
      show "\<not> c \<noteq> c" by simp
    next
      fix j assume "i + 1 \<le> j" "j < n"
      then show "\<exists>c. deref p j = Some c \<and> deref q j = Some c"
        using "1.prems" [of j] by simp
    qed
    then show ?thesis using True pc qc by (subst eq_loop.simps) simp
  qed
qed

section \<open>Facts about the operations of the fallback view\<close>

lemma operator_index_throws_iff:
  "operator_index v pos = Inl Out_of_range \<longleftrightarrow> pos \<ge> m_nSize v"
  by (simp add: operator_index_def split: option.splits)

lemma at_throws_iff: "at v pos = Inl Out_of_range \<longleftrightarrow> pos \<ge> m_nSize v"
  by (simp add: at_def split: option.splits)

lemma operator_index_in_range:
  "wf_view v \<Longrightarrow> pos < m_nSize v \<Longrightarrow> operator_index v pos = Inr (m_pData v ! pos)"
  by (simp add: operator_index_def wf_view_def deref_def)

lemma at_in_range:
  "wf_view v \<Longrightarrow> pos < m_nSize v \<Longrightarrow> at v pos = Inr (m_pData v ! pos)"
  by (simp add: at_def wf_view_def deref_def)

lemma operator_index_Inr_iff:
  "operator_index v i = Inr c \<longleftrightarrow> i < m_nSize v \<and> deref (m_pData v) i = Some c"
  by (simp add: operator_index_def split: option.splits)

lemma operator_eq_wf:
  "wf_view a \<Longrightarrow> wf_view b \<Longrightarrow>
   operator_eq a b =
     Some (m_nSize a = m_nSize b \<and> (\<forall>i<m_nSize a. m_pData a ! i = m_pData b ! i))"
  by (simp add: operator_eq_def wf_view_def eq_loop_wf)

lemma operator_ne_wf:
  "wf_view a \<Longrightarrow> wf_view b \<Longrightarrow>
   operator_ne a b =
     Some (\<not> (m_nSize a = m_nSize b \<and> (\<forall>i<m_nSize a. m_pData a ! i = m_pData b ! i)))"
  by (simp add: operator_ne_def operator_eq_wf)

lemma operator_eq_sym: "operator_eq a b = operator_eq b a"
  by (simp add: operator_eq_def eq_loop_sym [of "m_pData a"])

lemma operator_eq_True_iff:
  "operator_eq a b = Some True \<longleftrightarrow>
     m_nSize a = m_nSize b \<and>
     (\<forall>i<m_nSize a. \<exists>c. deref (m_pData a) i = Some c \<and> deref (m_pData b) i = Some c)"
proof
  assume h: "operator_eq a b = Some True"
  then have sz: "m_nSize a = m_nSize b"
    by (simp add: operator_eq_def split: if_splits)
  with h have "eq_loop (m_pData a) (m_pData b) (m_nSize a) 0 = Some True"
    by (simp add: operator_eq_def)
  then show "m_nSize a = m_nSize b \<and>
     (\<forall>i<m_nSize a. \<exists>c. deref (m_pData a) i = Some c \<and> deref (m_pData b) i = Some c)"
    using sz eq_loop_True_reads [of "m_pData a" "m_pData b" "m_nSize a" 0] by simp
next
  assume h: "m_nSize a = m_nSize b \<and>
     (\<forall>i<m_nSize a. \<exists>c. deref (m_pData a) i = Some c \<and> deref (m_pData b) i = Some c)"
  then have "eq_loop (m_pData a) (m_pData b) (m_nSize a) 0 = Some True"
    by (intro eq_loop_True_intro) simp
  then show "operator_eq a b = Some True" using h by (simp add: operator_eq_def)
qed

lemma operator_eq_trans:
  assumes "operator_eq a b = Some True" and "operator_eq b c = Some True"
  shows "operator_eq a c = Some True"
proof -
  from assms(1) have ab: "m_nSize a = m_nSize b"
    "\<forall>i<m_nSize a. \<exists>x. deref (m_pData a) i = Some x \<and> deref (m_pData b) i = Some x"
    by (simp_all add: operator_eq_True_iff)
  from assms(2) have bc: "m_nSize b = m_nSize c"
    "\<forall>i<m_nSize b. \<exists>x. deref (m_pData b) i = Some x \<and> deref (m_pData c) i = Some x"
    by (simp_all add: operator_eq_True_iff)
  have "\<forall>i<m_nSize a. \<exists>x. deref (m_pData a) i = Some x \<and> deref (m_pData c) i = Some x"
  proof (intro allI impI)
    fix i assume i: "i < m_nSize a"
    then obtain x where x: "deref (m_pData a) i = Some x" "deref (m_pData b) i = Some x"
      using ab(2) by blast
    from i ab(1) obtain y where y: "deref (m_pData b) i = Some y" "deref (m_pData c) i = Some y"
      using bc(2) by auto
    from x y show "\<exists>x. deref (m_pData a) i = Some x \<and> deref (m_pData c) i = Some x" by simp
  qed
  then show ?thesis using ab(1) bc(1) by (simp add: operator_eq_True_iff)
qed

text \<open>
  Before C++20 the selection returns the stored field as well, for each of the four
  character types of those standards.
\<close>

lemma visit_legacy_returns_field:
  "fst (visit_17 T_char q) = Inr (View_char (TXT_CHAR' q)) \<and>
   fst (visit_17 T_wchar_t q) = Inr (View_wchar_t (TXT_CHAR_W' q)) \<and>
   fst (visit_17 T_char16_t q) = Inr (View_char16_t (TXT_CHAR_16' q)) \<and>
   fst (visit_17 T_char32_t q) = Inr (View_char32_t (TXT_CHAR_32' q)) \<and>
   fst (visit_14 T_char q) = Inr (View_char (TXT_CHAR' q)) \<and>
   fst (visit_14 T_wchar_t q) = Inr (View_wchar_t (TXT_CHAR_W' q)) \<and>
   fst (visit_14 T_char16_t q) = Inr (View_char16_t (TXT_CHAR_16' q)) \<and>
   fst (visit_14 T_char32_t q) = Inr (View_char32_t (TXT_CHAR_32' q))"
  by (simp add: visit_17_def)

section \<open>Selection returns the stored field\<close>

text \<open>
  C1. For every \<^verbatim>\<open>poly_enc\<close> value \<open>p\<close> and each of the five supported character
  types \<open>T\<close>, \<^verbatim>\<open>p.visit<T>()\<close> and \<^verbatim>\<open>visit_poly_enc<T>(p)\<close> return the stored field of
  \<open>p\<close> that corresponds to \<open>T\<close>, unchanged: \<^verbatim>\<open>TXT_CHAR\<close> for \<^verbatim>\<open>char\<close>, \<^verbatim>\<open>TXT_CHAR_W\<close>
  for \<^verbatim>\<open>wchar_t\<close>, \<^verbatim>\<open>TXT_CHAR_8\<close> for \<^verbatim>\<open>char8_t\<close>, \<^verbatim>\<open>TXT_CHAR_16\<close> for \<^verbatim>\<open>char16_t\<close>
  and \<^verbatim>\<open>TXT_CHAR_32\<close> for \<^verbatim>\<open>char32_t\<close>.
\<close>

theorem visit_returns_field:
  "fst (visit T_char p) = Inr (View_char (TXT_CHAR p)) \<and>
   fst (visit T_wchar_t p) = Inr (View_wchar_t (TXT_CHAR_W p)) \<and>
   fst (visit T_char8_t p) = Inr (View_char8_t (TXT_CHAR_8 p)) \<and>
   fst (visit T_char16_t p) = Inr (View_char16_t (TXT_CHAR_16 p)) \<and>
   fst (visit T_char32_t p) = Inr (View_char32_t (TXT_CHAR_32 p)) \<and>
   fst (visit_poly_enc T_char p) = Inr (View_char (TXT_CHAR p)) \<and>
   fst (visit_poly_enc T_wchar_t p) = Inr (View_wchar_t (TXT_CHAR_W p)) \<and>
   fst (visit_poly_enc T_char8_t p) = Inr (View_char8_t (TXT_CHAR_8 p)) \<and>
   fst (visit_poly_enc T_char16_t p) = Inr (View_char16_t (TXT_CHAR_16 p)) \<and>
   fst (visit_poly_enc T_char32_t p) = Inr (View_char32_t (TXT_CHAR_32 p))"
  by (simp add: visit_def visit_poly_enc_def CharType_def is_char_v_def)

text \<open>The selection on the example aggregate gives back each of its views.\<close>

theorem visit_returns_field_witness:
  "fst (visit T_char ex_poly_enc) = Inr (View_char ex_char) \<and>
   fst (visit T_wchar_t ex_poly_enc) = Inr (View_wchar_t ex_wchar_t) \<and>
   fst (visit T_char8_t ex_poly_enc) = Inr (View_char8_t ex_char8_t) \<and>
   fst (visit_poly_enc T_char16_t ex_poly_enc) = Inr (View_char16_t ex_char16_t) \<and>
   fst (visit_poly_enc T_char32_t ex_poly_enc) = Inr (View_char32_t ex_char32_t)"
  using visit_returns_field [of ex_poly_enc]
  by (simp add: ex_poly_enc_def poly_enc_ctor_def)

text \<open>
  C2. Round trip of construction and selection: for every five views \<open>v1\<close> (\<^verbatim>\<open>char\<close>),
  \<open>v2\<close> (\<^verbatim>\<open>wchar_t\<close>), \<open>v3\<close> (\<^verbatim>\<open>char8_t\<close>), \<open>v4\<close> (\<^verbatim>\<open>char16_t\<close>) and \<open>v5\<close>
  (\<^verbatim>\<open>char32_t\<close>), constructing \<^verbatim>\<open>poly_enc(v1, v2, v3, v4, v5)\<close> and then selecting
  with a character type yields the very argument that was passed for that type.
\<close>

theorem ctor_visit_roundtrip:
  "fst (visit T_char (poly_enc_ctor v1 v2 v3 v4 v5)) = Inr (View_char v1) \<and>
   fst (visit T_wchar_t (poly_enc_ctor v1 v2 v3 v4 v5)) = Inr (View_wchar_t v2) \<and>
   fst (visit T_char8_t (poly_enc_ctor v1 v2 v3 v4 v5)) = Inr (View_char8_t v3) \<and>
   fst (visit T_char16_t (poly_enc_ctor v1 v2 v3 v4 v5)) = Inr (View_char16_t v4) \<and>
   fst (visit T_char32_t (poly_enc_ctor v1 v2 v3 v4 v5)) = Inr (View_char32_t v5) \<and>
   fst (visit_poly_enc T_char (poly_enc_ctor v1 v2 v3 v4 v5)) = Inr (View_char v1) \<and>
   fst (visit_poly_enc T_wchar_t (poly_enc_ctor v1 v2 v3 v4 v5)) = Inr (View_wchar_t v2) \<and>
   fst (visit_poly_enc T_char8_t (poly_enc_ctor v1 v2 v3 v4 v5)) = Inr (View_char8_t v3) \<and>
   fst (visit_poly_enc T_char16_t (poly_enc_ctor v1 v2 v3 v4 v5)) = Inr (View_char16_t v4) \<and>
   fst (visit_poly_enc T_char32_t (poly_enc_ctor v1 v2 v3 v4 v5)) = Inr (View_char32_t v5)"
  by (simp add: visit_def visit_poly_enc_def CharType_def is_char_v_def poly_enc_ctor_def)

theorem ctor_visit_roundtrip_witness:
  "fst (visit T_char8_t (poly_enc_ctor ex_char ex_wchar_t ex_char8_t ex_char16_t ex_char32_t))
     = Inr (View_char8_t ex_char8_t) \<and>
   fst (visit_poly_enc T_char16_t
          (poly_enc_ctor ex_char ex_wchar_t ex_char8_t ex_char16_t ex_char32_t))
     = Inr (View_char16_t ex_char16_t)"
  using ctor_visit_roundtrip [of ex_char ex_wchar_t ex_char8_t ex_char16_t ex_char32_t]
  by simp

section \<open>Selection changes nothing and depends on its argument only\<close>

text \<open>
  C6. A \<^verbatim>\<open>poly_enc\<close> value is not mutated by selection: for every \<open>p\<close> and every
  character type \<open>T\<close>, the object after \<^verbatim>\<open>p.visit<T>()\<close> or \<^verbatim>\<open>visit_poly_enc<T>(p)\<close>
  has the five fields \<^verbatim>\<open>TXT_CHAR\<close>, \<^verbatim>\<open>TXT_CHAR_W\<close>, \<^verbatim>\<open>TXT_CHAR_8\<close>,
  \<^verbatim>\<open>TXT_CHAR_16\<close> and \<^verbatim>\<open>TXT_CHAR_32\<close> that \<open>p\<close> had before.
\<close>

theorem visit_leaves_fields_unchanged:
  "TXT_CHAR (snd (visit T p)) = TXT_CHAR p \<and>
   TXT_CHAR_W (snd (visit T p)) = TXT_CHAR_W p \<and>
   TXT_CHAR_8 (snd (visit T p)) = TXT_CHAR_8 p \<and>
   TXT_CHAR_16 (snd (visit T p)) = TXT_CHAR_16 p \<and>
   TXT_CHAR_32 (snd (visit T p)) = TXT_CHAR_32 p \<and>
   TXT_CHAR (snd (visit_poly_enc T p)) = TXT_CHAR p \<and>
   TXT_CHAR_W (snd (visit_poly_enc T p)) = TXT_CHAR_W p \<and>
   TXT_CHAR_8 (snd (visit_poly_enc T p)) = TXT_CHAR_8 p \<and>
   TXT_CHAR_16 (snd (visit_poly_enc T p)) = TXT_CHAR_16 p \<and>
   TXT_CHAR_32 (snd (visit_poly_enc T p)) = TXT_CHAR_32 p"
  by (simp add: visit_def visit_poly_enc_def)

theorem visit_leaves_fields_unchanged_witness:
  "TXT_CHAR (snd (visit T_char16_t ex_poly_enc)) = ex_char \<and>
   TXT_CHAR_W (snd (visit T_char16_t ex_poly_enc)) = ex_wchar_t \<and>
   TXT_CHAR_8 (snd (visit T_char16_t ex_poly_enc)) = ex_char8_t \<and>
   TXT_CHAR_16 (snd (visit T_char16_t ex_poly_enc)) = ex_char16_t \<and>
   TXT_CHAR_32 (snd (visit_poly_enc T_char16_t ex_poly_enc)) = ex_char32_t"
  using visit_leaves_fields_unchanged [of T_char16_t ex_poly_enc]
  by (simp add: ex_poly_enc_def poly_enc_ctor_def)

text \<open>
  C7. Selection is deterministic and depends only on its arguments: for each of the
  five character types, \<^verbatim>\<open>visit\<close> and \<^verbatim>\<open>visit_poly_enc\<close> return equal views on any
  two \<^verbatim>\<open>poly_enc\<close> values whose five fields are pairwise equal. Views are equal in the
  sense of \<^verbatim>\<open>==\<close> on views, the comparison of lengths and characters that
  \<open>operator_eq\<close> models: the two aggregates may point to different storage, and nothing
  of that storage beyond the viewed characters, nor anything else, reaches the result.
\<close>

theorem visit_deterministic:
  assumes "operator_eq (TXT_CHAR p) (TXT_CHAR q) = Some True"
    and "operator_eq (TXT_CHAR_W p) (TXT_CHAR_W q) = Some True"
    and "operator_eq (TXT_CHAR_8 p) (TXT_CHAR_8 q) = Some True"
    and "operator_eq (TXT_CHAR_16 p) (TXT_CHAR_16 q) = Some True"
    and "operator_eq (TXT_CHAR_32 p) (TXT_CHAR_32 q) = Some True"
  shows
  "(\<exists>a b. fst (visit T_char p) = Inr (View_char a) \<and>
          fst (visit T_char q) = Inr (View_char b) \<and> operator_eq a b = Some True) \<and>
   (\<exists>a b. fst (visit T_wchar_t p) = Inr (View_wchar_t a) \<and>
          fst (visit T_wchar_t q) = Inr (View_wchar_t b) \<and> operator_eq a b = Some True) \<and>
   (\<exists>a b. fst (visit T_char8_t p) = Inr (View_char8_t a) \<and>
          fst (visit T_char8_t q) = Inr (View_char8_t b) \<and> operator_eq a b = Some True) \<and>
   (\<exists>a b. fst (visit T_char16_t p) = Inr (View_char16_t a) \<and>
          fst (visit T_char16_t q) = Inr (View_char16_t b) \<and> operator_eq a b = Some True) \<and>
   (\<exists>a b. fst (visit T_char32_t p) = Inr (View_char32_t a) \<and>
          fst (visit T_char32_t q) = Inr (View_char32_t b) \<and> operator_eq a b = Some True) \<and>
   (\<exists>a b. fst (visit_poly_enc T_char p) = Inr (View_char a) \<and>
          fst (visit_poly_enc T_char q) = Inr (View_char b) \<and> operator_eq a b = Some True) \<and>
   (\<exists>a b. fst (visit_poly_enc T_wchar_t p) = Inr (View_wchar_t a) \<and>
          fst (visit_poly_enc T_wchar_t q) = Inr (View_wchar_t b) \<and>
          operator_eq a b = Some True) \<and>
   (\<exists>a b. fst (visit_poly_enc T_char8_t p) = Inr (View_char8_t a) \<and>
          fst (visit_poly_enc T_char8_t q) = Inr (View_char8_t b) \<and>
          operator_eq a b = Some True) \<and>
   (\<exists>a b. fst (visit_poly_enc T_char16_t p) = Inr (View_char16_t a) \<and>
          fst (visit_poly_enc T_char16_t q) = Inr (View_char16_t b) \<and>
          operator_eq a b = Some True) \<and>
   (\<exists>a b. fst (visit_poly_enc T_char32_t p) = Inr (View_char32_t a) \<and>
          fst (visit_poly_enc T_char32_t q) = Inr (View_char32_t b) \<and>
          operator_eq a b = Some True)"
  using assms by (simp add: visit_def visit_poly_enc_def CharType_def is_char_v_def)

text \<open>
  The two example aggregates are different values, since their views point to different
  arrays, and have pairwise equal fields.
\<close>

theorem visit_deterministic_witness:
  "TXT_CHAR_16 ex_poly_enc \<noteq> TXT_CHAR_16 ex_poly_enc_b \<and>
   operator_eq (TXT_CHAR ex_poly_enc) (TXT_CHAR ex_poly_enc_b) = Some True \<and>
   operator_eq (TXT_CHAR_W ex_poly_enc) (TXT_CHAR_W ex_poly_enc_b) = Some True \<and>
   operator_eq (TXT_CHAR_8 ex_poly_enc) (TXT_CHAR_8 ex_poly_enc_b) = Some True \<and>
   operator_eq (TXT_CHAR_16 ex_poly_enc) (TXT_CHAR_16 ex_poly_enc_b) = Some True \<and>
   operator_eq (TXT_CHAR_32 ex_poly_enc) (TXT_CHAR_32 ex_poly_enc_b) = Some True \<and>
   (\<exists>a b. fst (visit T_char16_t ex_poly_enc) = Inr (View_char16_t a) \<and>
          fst (visit T_char16_t ex_poly_enc_b) = Inr (View_char16_t b) \<and>
          operator_eq a b = Some True) \<and>
   (\<exists>a b. fst (visit_poly_enc T_char ex_poly_enc) = Inr (View_char a) \<and>
          fst (visit_poly_enc T_char ex_poly_enc_b) = Inr (View_char b) \<and>
          operator_eq a b = Some True)"
proof -
  have differ: "TXT_CHAR_16 ex_poly_enc \<noteq> TXT_CHAR_16 ex_poly_enc_b"
    by (simp add: ex_poly_enc_def ex_poly_enc_b_def poly_enc_ctor_def
        basic_string_view_ptr_len_def ex_char16_t_def)
  have h1: "operator_eq (TXT_CHAR ex_poly_enc) (TXT_CHAR ex_poly_enc_b) = Some True"
    by (simp add: ex_poly_enc_def ex_poly_enc_b_def poly_enc_ctor_def
        basic_string_view_ptr_len_def ex_char_def operator_eq_def eq_loop.simps deref_def)
  have h2: "operator_eq (TXT_CHAR_W ex_poly_enc) (TXT_CHAR_W ex_poly_enc_b) = Some True"
    by (simp add: ex_poly_enc_def ex_poly_enc_b_def poly_enc_ctor_def
        basic_string_view_ptr_len_def ex_wchar_t_def operator_eq_def eq_loop.simps deref_def)
  have h3: "operator_eq (TXT_CHAR_8 ex_poly_enc) (TXT_CHAR_8 ex_poly_enc_b) = Some True"
    by (simp add: ex_poly_enc_def ex_poly_enc_b_def poly_enc_ctor_def
        basic_string_view_ptr_len_def ex_char8_t_def operator_eq_def eq_loop.simps deref_def)
  have h4: "operator_eq (TXT_CHAR_16 ex_poly_enc) (TXT_CHAR_16 ex_poly_enc_b) = Some True"
    by (simp add: ex_poly_enc_def ex_poly_enc_b_def poly_enc_ctor_def
        basic_string_view_ptr_len_def ex_char16_t_def operator_eq_def eq_loop.simps deref_def)
  have h5: "operator_eq (TXT_CHAR_32 ex_poly_enc) (TXT_CHAR_32 ex_poly_enc_b) = Some True"
    by (simp add: ex_poly_enc_def ex_poly_enc_b_def poly_enc_ctor_def
        basic_string_view_ptr_len_def ex_char32_t_def operator_eq_def eq_loop.simps deref_def)
  show ?thesis
    using differ h1 h2 h3 h4 h5 visit_deterministic [OF h1 h2 h3 h4 h5] by simp
qed

section \<open>Unsupported character types\<close>

text \<open>
  C3, as the code has it. For every type \<open>T\<close> outside the five supported character
  types, requesting a view by \<^verbatim>\<open>visit\<close> or \<^verbatim>\<open>visit_poly_enc\<close> fails to compile on
  every standard level: in C++20 the constraint \<^verbatim>\<open>CharType\<close> is not satisfied, in C++17
  the \<^verbatim>\<open>static_assert\<close> in the body of \<^verbatim>\<open>visit\<close> fails, in C++14 and C++11 the
  \<^verbatim>\<open>static_assert\<close> of the primary template fails. No level returns an empty view.
\<close>

theorem unsupported_type_rejected:
  "\<not> is_char_v T \<Longrightarrow>
     fst (visit T p) = Inl Constraint_not_satisfied \<and>
     fst (visit_poly_enc T p) = Inl Constraint_not_satisfied \<and>
     fst (visit_17 T q) = Inl Static_assert_failed \<and>
     fst (visit_poly_enc_17 T q) = Inl Static_assert_failed \<and>
     fst (visit_14 T q) = Inl Static_assert_failed \<and>
     fst (visit_poly_enc_14 T q) = Inl Static_assert_failed"
  by (cases T)
     (simp_all add: is_char_v_def CharType_def visit_def visit_poly_enc_def visit_17_def
        visit_poly_enc_17_def visit_poly_enc_14_def)

theorem unsupported_type_rejected_witness:
  "\<not> is_char_v (T_other ''int'') \<and>
   fst (visit (T_other ''int'') ex_poly_enc) = Inl Constraint_not_satisfied \<and>
   fst (visit_poly_enc (T_other ''int'') ex_poly_enc) = Inl Constraint_not_satisfied \<and>
   fst (visit_17 (T_other ''int'') ex_poly_enc') = Inl Static_assert_failed \<and>
   fst (visit_14 (T_other ''int'') ex_poly_enc') = Inl Static_assert_failed"
proof -
  have h: "\<not> is_char_v (T_other ''int'')" by (simp add: is_char_v_def)
  show ?thesis
    using h unsupported_type_rejected [OF h, of ex_poly_enc ex_poly_enc'] by simp
qed

text \<open>
  Before C++20, selecting with \<^verbatim>\<open>int\<close> does not return an empty view of \<^verbatim>\<open>int\<close>: the
  instantiation is rejected by the assertion, in the C++17 branch and in the C++14 and
  C++11 branches.
\<close>

theorem unsupported_type_empty_view_counterexample:
  "fst (visit_17 (T_other ''int'') ex_poly_enc') = Inl Static_assert_failed \<and>
   fst (visit_17 (T_other ''int'') ex_poly_enc') \<noteq> Inr (View_default (T_other ''int'')) \<and>
   fst (visit_14 (T_other ''int'') ex_poly_enc') = Inl Static_assert_failed \<and>
   fst (visit_14 (T_other ''int'') ex_poly_enc') \<noteq> Inr (View_default (T_other ''int''))"
  by (simp add: visit_17_def)

section \<open>Element access of the fallback view\<close>

text \<open>
  C8. For the fallback \<^verbatim>\<open>utf42::basic_string_view\<close>, for every view \<open>v\<close> and every index
  \<open>pos\<close>, both \<^verbatim>\<open>v[pos]\<close> and \<^verbatim>\<open>v.at(pos)\<close> throw \<^verbatim>\<open>std::out_of_range\<close> if and only if
  \<open>pos \<ge> v.length()\<close>, and otherwise return the character at offset \<open>pos\<close> of the
  viewed data (where the view is well formed, so that this character exists).
\<close>

theorem index_and_at_bounds:
  "(operator_index v pos = Inl Out_of_range \<longleftrightarrow> pos \<ge> length_sv v) \<and>
   (at v pos = Inl Out_of_range \<longleftrightarrow> pos \<ge> length_sv v) \<and>
   (wf_view v \<longrightarrow> pos < length_sv v \<longrightarrow>
      operator_index v pos = Inr (data v ! pos) \<and> at v pos = Inr (data v ! pos))"
  by (simp add: operator_index_throws_iff at_throws_iff operator_index_in_range at_in_range
      length_sv_def data_def)

theorem index_and_at_bounds_witness:
  "wf_view ex_char16_t \<and> 1 < length_sv ex_char16_t \<and>
   operator_index ex_char16_t 1 = Inr 0xDE00 \<and> at ex_char16_t 1 = Inr 0xDE00 \<and>
   2 \<ge> length_sv ex_char16_t \<and>
   operator_index ex_char16_t 2 = Inl Out_of_range \<and> at ex_char16_t 2 = Inl Out_of_range"
  using index_and_at_bounds [of ex_char16_t 1] index_and_at_bounds [of ex_char16_t 2]
  by (simp add: wf_view_def length_sv_def data_def ex_char16_t_def)

section \<open>Run-time errors\<close>

text \<open>
  C4, as the code has it. \<^verbatim>\<open>poly_enc\<close> construction, \<^verbatim>\<open>visit\<close> and
  \<^verbatim>\<open>visit_poly_enc\<close> never signal an error at run time: for every \<^verbatim>\<open>poly_enc\<close> and
  every supported character type they return a view. Of the public operations of the
  fallback view, \<^verbatim>\<open>operator[]\<close> and \<^verbatim>\<open>at\<close> throw \<^verbatim>\<open>std::out_of_range\<close> exactly when
  \<open>pos \<ge> length()\<close>, and \<^verbatim>\<open>str\<close> fails exactly when the \<^verbatim>\<open>std::basic_string\<close>
  constructor that it calls fails (\<^verbatim>\<open>std::length_error\<close>, \<^verbatim>\<open>std::bad_alloc\<close>). The
  other operations never signal an error: the constructors (default, from a pointer to
  null-terminated data, from a pointer and a length within the data, from a non-empty
  array) give a well-formed view; \<^verbatim>\<open>length\<close>, \<^verbatim>\<open>data\<close>, \<^verbatim>\<open>operator bool\<close> and
  \<^verbatim>\<open>empty\<close> read a member; and on well-formed views \<^verbatim>\<open>operator==\<close> and
  \<^verbatim>\<open>operator!=\<close> return a truth value, and \<^verbatim>\<open>operator[]\<close> and \<^verbatim>\<open>at\<close> a character
  when \<open>pos < length()\<close>.
\<close>

theorem runtime_error_paths:
  fixes a b :: "'c basic_string_view" and s :: "'d::zero list"
    and basic_string :: "'c list \<Rightarrow> nat \<Rightarrow> 'r"
  shows
  "(is_char_v T \<longrightarrow>
      (\<exists>v. fst (visit T p) = Inr v) \<and> (\<exists>v. fst (visit_poly_enc T p) = Inr v) \<and>
      (\<exists>v. fst (visit_poly_enc T (poly_enc_ctor v1 v2 v3 v4 v5)) = Inr v)) \<and>
   wf_view basic_string_view_default \<and> empty basic_string_view_default \<and>
   \<not> operator_bool basic_string_view_default \<and>
   ((\<exists>k<length s. s ! k = 0) \<longrightarrow> (\<exists>v. basic_string_view_ptr s = Some v \<and> wf_view v)) \<and>
   (nLength \<le> length s \<longrightarrow> wf_view (basic_string_view_ptr_len s nLength)) \<and>
   (length s > 0 \<longrightarrow> (\<exists>v. basic_string_view_array s = Inr v \<and> wf_view v)) \<and>
   length_sv a = m_nSize a \<and> data a = m_pData a \<and>
   (operator_bool a \<longleftrightarrow> length_sv a > 0) \<and> (empty a \<longleftrightarrow> length_sv a = 0) \<and>
   (wf_view a \<and> wf_view b \<longrightarrow>
      (\<exists>r. operator_eq a b = Some r) \<and> (\<exists>r. operator_ne a b = Some r)) \<and>
   (wf_view a \<and> pos < length_sv a \<longrightarrow>
      (\<exists>x. operator_index a pos = Inr x) \<and> (\<exists>x. at a pos = Inr x)) \<and>
   (operator_index a pos = Inl Out_of_range \<longleftrightarrow> pos \<ge> length_sv a) \<and>
   (at a pos = Inl Out_of_range \<longleftrightarrow> pos \<ge> length_sv a) \<and>
   str basic_string a = basic_string (data a) (length_sv a)"
proof (intro conjI impI)
  assume "is_char_v T"
  then show "\<exists>v. fst (visit T p) = Inr v" "\<exists>v. fst (visit_poly_enc T p) = Inr v"
    "\<exists>v. fst (visit_poly_enc T (poly_enc_ctor v1 v2 v3 v4 v5)) = Inr v"
    by (auto simp: is_char_v_def visit_def visit_poly_enc_def CharType_def)
next
  show "wf_view basic_string_view_default" "empty basic_string_view_default"
    "\<not> operator_bool basic_string_view_default"
    by (simp_all add: basic_string_view_default_def wf_view_def empty_def operator_bool_def)
next
  assume "\<exists>k<length s. s ! k = 0"
  then obtain k where k: "k < length s" "s ! k = 0" by blast
  then obtain n where "n \<le> k" "str_len s = Some n"
    using str_len_terminated [OF k] by blast
  then show "\<exists>v. basic_string_view_ptr s = Some v \<and> wf_view v"
    using k(1) by (simp add: basic_string_view_ptr_def wf_view_def)
next
  assume "nLength \<le> length s"
  then show "wf_view (basic_string_view_ptr_len s nLength)"
    by (simp add: basic_string_view_ptr_len_def wf_view_def)
next
  assume "length s > 0"
  then show "\<exists>v. basic_string_view_array s = Inr v \<and> wf_view v"
    by (simp add: basic_string_view_array_def wf_view_def)
next
  show "length_sv a = m_nSize a" "data a = m_pData a"
    "operator_bool a \<longleftrightarrow> length_sv a > 0" "empty a \<longleftrightarrow> length_sv a = 0"
    by (simp_all add: length_sv_def data_def operator_bool_def empty_def)
next
  assume "wf_view a \<and> wf_view b"
  then show "\<exists>r. operator_eq a b = Some r" "\<exists>r. operator_ne a b = Some r"
    by (simp_all add: operator_eq_wf operator_ne_wf)
next
  assume "wf_view a \<and> pos < length_sv a"
  then show "\<exists>x. operator_index a pos = Inr x" "\<exists>x. at a pos = Inr x"
    by (simp_all add: operator_index_in_range at_in_range length_sv_def)
next
  show "operator_index a pos = Inl Out_of_range \<longleftrightarrow> pos \<ge> length_sv a"
    "at a pos = Inl Out_of_range \<longleftrightarrow> pos \<ge> length_sv a"
    by (simp_all add: operator_index_throws_iff at_throws_iff length_sv_def)
next
  show "str basic_string a = basic_string (data a) (length_sv a)"
    by (simp add: str_def data_def length_sv_def)
qed

theorem runtime_error_paths_witness:
  "is_char_v T_char16_t \<and>
   (\<exists>v. fst (visit T_char16_t ex_poly_enc) = Inr v) \<and>
   (\<exists>v. fst (visit_poly_enc T_char16_t ex_poly_enc) = Inr v) \<and>
   (\<exists>v. fst (visit_poly_enc T_char16_t
               (poly_enc_ctor ex_char ex_wchar_t ex_char8_t ex_char16_t ex_char32_t)) = Inr v) \<and>
   (\<exists>v. basic_string_view_ptr [0xD83D, 0xDE00, 0 :: char16_t] = Some v \<and> wf_view v) \<and>
   wf_view (basic_string_view_ptr_len [0xD83D, 0xDE00, 0 :: char16_t] 2) \<and>
   (\<exists>v. basic_string_view_array [0xD83D, 0xDE00, 0 :: char16_t] = Inr v \<and> wf_view v) \<and>
   wf_view ex_char16_t \<and> 1 < length_sv ex_char16_t \<and>
   (\<exists>r. operator_eq ex_char16_t ex_char16_t = Some r) \<and>
   (\<exists>r. operator_ne ex_char16_t ex_char16_t = Some r) \<and>
   (\<exists>x. operator_index ex_char16_t 1 = Inr x) \<and>
   (\<exists>x. at ex_char16_t 1 = Inr x) \<and>
   str (ex_basic_string (2 ^ 62) True) ex_char16_t = Inr [0xD83D, 0xDE00] \<and>
   str (ex_basic_string (2 ^ 62) False) ex_char16_t = Inl Bad_alloc"
proof -
  have h1: "is_char_v T_char16_t" by (simp add: is_char_v_def)
  have h2: "\<exists>k<length [0xD83D, 0xDE00, 0 :: char16_t]. [0xD83D, 0xDE00, 0 :: char16_t] ! k = 0"
    by (rule exI [of _ 2]) simp
  have h3: "wf_view ex_char16_t \<and> 1 < length_sv ex_char16_t"
    by (simp add: wf_view_def length_sv_def ex_char16_t_def)
  show ?thesis
    using h1 h2 h3
      runtime_error_paths [of T_char16_t ex_poly_enc ex_char ex_wchar_t ex_char8_t ex_char16_t
        ex_char32_t "[0xD83D, 0xDE00, 0 :: char16_t]" 2
        ex_char16_t ex_char16_t 1 "ex_basic_string (2 ^ 62) True"]
      runtime_error_paths [of T_char16_t ex_poly_enc ex_char ex_wchar_t ex_char8_t ex_char16_t
        ex_char32_t "[0xD83D, 0xDE00, 0 :: char16_t]" 2
        ex_char16_t ex_char16_t 1 "ex_basic_string (2 ^ 62) False"]
    by (simp add: ex_basic_string_def data_def length_sv_def ex_char16_t_def)
qed

text \<open>
  Run-time error paths. The view of the narrow example literal, as the C++14
  constructor builds it from the pointer, throws on element access at index 4, its
  length; its \<^verbatim>\<open>str\<close> fails when the allocation does; and \<^verbatim>\<open>str\<close> of a view of length
  \<^verbatim>\<open>SIZE_MAX\<close> fails with \<^verbatim>\<open>std::length_error\<close>, whatever it points to.
\<close>

theorem runtime_error_counterexample:
  "basic_string_view_ptr [0xF0, 0x9F, 0x98, 0x80, 0] = Some ex_char \<and>
   operator_index ex_char 4 = Inl Out_of_range \<and>
   at ex_char 4 = Inl Out_of_range \<and>
   str (ex_basic_string (2 ^ 62) False) ex_char = Inl Bad_alloc \<and>
   str (ex_basic_string (2 ^ 62) True)
     (basic_string_view_ptr_len [0x61, 0 :: char_c] (2 ^ 64 - 1)) = Inl Length_error"
  by (simp add: basic_string_view_ptr_def str_len_def str_len_loop.simps deref_def ex_char_def
      operator_index_def at_def str_def ex_basic_string_def basic_string_view_ptr_len_def)

section \<open>Equality of fallback views\<close>

text \<open>
  C9. For the fallback \<^verbatim>\<open>utf42::basic_string_view\<close>, for every two views \<open>a\<close> and \<open>b\<close>,
  \<^verbatim>\<open>a == b\<close> returns true if and only if \<open>a.length() = b.length()\<close> and the characters
  at every index \<open>i < a.length()\<close> agree, and \<^verbatim>\<open>a != b\<close> returns exactly the negation of
  \<^verbatim>\<open>a == b\<close>; equality is reflexive (on well-formed views), symmetric and transitive.
\<close>

theorem operator_eq_equivalence:
  "(operator_eq a b = Some True \<longleftrightarrow>
      length_sv a = length_sv b \<and>
      (\<forall>i<length_sv a. \<exists>x. operator_index a i = Inr x \<and> operator_index b i = Inr x)) \<and>
   (wf_view a \<and> wf_view b \<longrightarrow>
      operator_eq a b =
        Some (length_sv a = length_sv b \<and> (\<forall>i<length_sv a. data a ! i = data b ! i))) \<and>
   operator_ne a b = map_option Not (operator_eq a b) \<and>
   (wf_view a \<and> wf_view b \<longrightarrow>
      operator_ne a b =
        Some (\<not> (length_sv a = length_sv b \<and> (\<forall>i<length_sv a. data a ! i = data b ! i)))) \<and>
   (wf_view a \<longrightarrow> operator_eq a a = Some True) \<and>
   operator_eq a b = operator_eq b a \<and>
   (operator_eq a b = Some True \<and> operator_eq b c = Some True \<longrightarrow> operator_eq a c = Some True)"
proof (intro conjI impI)
  show "operator_eq a b = Some True \<longleftrightarrow>
      length_sv a = length_sv b \<and>
      (\<forall>i<length_sv a. \<exists>x. operator_index a i = Inr x \<and> operator_index b i = Inr x)"
    by (auto simp: operator_eq_True_iff operator_index_Inr_iff length_sv_def)
next
  assume "wf_view a \<and> wf_view b"
  then show "operator_eq a b =
        Some (length_sv a = length_sv b \<and> (\<forall>i<length_sv a. data a ! i = data b ! i))"
    by (simp add: operator_eq_wf length_sv_def data_def)
next
  show "operator_ne a b = map_option Not (operator_eq a b)"
    by (simp add: operator_ne_def)
next
  assume "wf_view a \<and> wf_view b"
  then show "operator_ne a b =
        Some (\<not> (length_sv a = length_sv b \<and> (\<forall>i<length_sv a. data a ! i = data b ! i)))"
    by (simp add: operator_ne_wf length_sv_def data_def)
next
  assume "wf_view a"
  then show "operator_eq a a = Some True" by (simp add: operator_eq_wf)
next
  show "operator_eq a b = operator_eq b a" by (rule operator_eq_sym)
next
  assume "operator_eq a b = Some True \<and> operator_eq b c = Some True"
  then show "operator_eq a c = Some True" using operator_eq_trans by blast
qed

text \<open>
  The wide and the UTF-32 example view hold the same code unit; a view of two code
  units differs from them; a view of one code unit of another array is equal to them.
\<close>

theorem operator_eq_equivalence_witness:
  "wf_view ex_wchar_t \<and> wf_view ex_char32_t \<and>
   operator_eq ex_wchar_t ex_char32_t = Some True \<and>
   operator_ne ex_wchar_t ex_char32_t = Some False \<and>
   operator_eq ex_char32_t ex_wchar_t = Some True \<and>
   operator_eq ex_wchar_t ex_wchar_t = Some True \<and>
   operator_eq ex_wchar_t (basic_string_view_ptr_len [0x1F600, 0x21, 0] 2) = Some False \<and>
   operator_ne ex_wchar_t (basic_string_view_ptr_len [0x1F600, 0x21, 0] 2) = Some True \<and>
   ex_wchar_t \<noteq> basic_string_view_ptr_len [0x1F600, 0x21, 0] 1 \<and>
   operator_eq ex_wchar_t (basic_string_view_ptr_len [0x1F600, 0x21, 0] 1) = Some True \<and>
   operator_ne ex_wchar_t (basic_string_view_ptr_len [0x1F600, 0x21, 0] 1) = Some False"
  using operator_eq_equivalence [of ex_wchar_t ex_char32_t ex_wchar_t]
    operator_eq_equivalence [of ex_wchar_t "basic_string_view_ptr_len [0x1F600, 0x21, 0] 2" ex_wchar_t]
    operator_eq_equivalence [of ex_wchar_t "basic_string_view_ptr_len [0x1F600, 0x21, 0] 1" ex_wchar_t]
  by (simp add: wf_view_def length_sv_def data_def ex_wchar_t_def ex_char32_t_def
      basic_string_view_ptr_len_def)

section \<open>The two literal constructors\<close>

text \<open>
  C10. The two constructors of the fallback view used for literals agree on
  null-terminated data without embedded nulls: for every character array of extent
  \<open>N\<close> whose only null is at index \<open>N - 1\<close>, the array constructor of the C++11 branch
  (length \<open>N - 1\<close>) and the pointer constructor of the C++14 branch (length computed by
  \<^verbatim>\<open>str_len\<close>) produce views with equal length and equal characters. For arrays with
  a null before index \<open>N - 1\<close> the two constructors assign different lengths.
\<close>

theorem literal_ctors_agree:
  fixes arr :: "'c::zero list"
  shows
  "(length arr > 0 \<and> arr ! (length arr - 1) = 0 \<and> (\<forall>i<length arr - 1. arr ! i \<noteq> 0) \<longrightarrow>
     (\<exists>a b. basic_string_view_array arr = Inr a \<and> basic_string_view_ptr arr = Some b \<and>
            length_sv a = length arr - 1 \<and> length_sv b = length arr - 1 \<and>
            data a = arr \<and> data b = arr \<and>
            (\<forall>i. operator_index a i = operator_index b i) \<and>
            operator_eq a b = Some True)) \<and>
   ((\<exists>k<length arr - 1. arr ! k = 0) \<longrightarrow>
     (\<exists>a b. basic_string_view_array arr = Inr a \<and> basic_string_view_ptr arr = Some b \<and>
            length_sv b < length_sv a \<and> length_sv a \<noteq> length_sv b))"
proof (intro conjI impI)
  assume h: "length arr > 0 \<and> arr ! (length arr - 1) = 0 \<and> (\<forall>i<length arr - 1. arr ! i \<noteq> 0)"
  let ?v = "\<lparr>m_pData = arr, m_nSize = length arr - 1\<rparr>"
  have "str_len_loop arr 0 = Some (length arr - 1)"
    using h by (intro str_len_loop_first_null) simp_all
  then have b: "basic_string_view_ptr arr = Some ?v"
    by (simp add: basic_string_view_ptr_def str_len_def)
  have a: "basic_string_view_array arr = Inr ?v"
    using h by (simp add: basic_string_view_array_def)
  have "wf_view ?v" by (simp add: wf_view_def)
  then have "operator_eq ?v ?v = Some True" by (simp add: operator_eq_wf)
  then show "\<exists>a b. basic_string_view_array arr = Inr a \<and> basic_string_view_ptr arr = Some b \<and>
            length_sv a = length arr - 1 \<and> length_sv b = length arr - 1 \<and>
            data a = arr \<and> data b = arr \<and>
            (\<forall>i. operator_index a i = operator_index b i) \<and>
            operator_eq a b = Some True"
    using a b by (simp add: length_sv_def data_def)
next
  assume "\<exists>k<length arr - 1. arr ! k = 0"
  then obtain k where k: "k < length arr - 1" "arr ! k = 0" by blast
  then have "k < length arr" by simp
  then obtain n where n: "n \<le> k" "str_len arr = Some n"
    using str_len_terminated [OF _ k(2)] by blast
  have a: "basic_string_view_array arr = Inr \<lparr>m_pData = arr, m_nSize = length arr - 1\<rparr>"
    using k(1) by (auto simp: basic_string_view_array_def)
  have b: "basic_string_view_ptr arr = Some \<lparr>m_pData = arr, m_nSize = n\<rparr>"
    using n(2) by (simp add: basic_string_view_ptr_def)
  show "\<exists>a b. basic_string_view_array arr = Inr a \<and> basic_string_view_ptr arr = Some b \<and>
            length_sv b < length_sv a \<and> length_sv a \<noteq> length_sv b"
    using a b n(1) k(1) by (simp add: length_sv_def)
qed

text \<open>The literals \<^verbatim>\<open>"Hi"\<close> and \<^verbatim>\<open>"H\0i"\<close>.\<close>

theorem literal_ctors_agree_witness:
  "(\<exists>a b. basic_string_view_array [0x48, 0x69, 0 :: char_c] = Inr a \<and>
          basic_string_view_ptr [0x48, 0x69, 0 :: char_c] = Some b \<and>
          length_sv a = 2 \<and> length_sv b = 2 \<and> operator_eq a b = Some True) \<and>
   (\<exists>a b. basic_string_view_array [0x48, 0, 0x69, 0 :: char_c] = Inr a \<and>
          basic_string_view_ptr [0x48, 0, 0x69, 0 :: char_c] = Some b \<and>
          length_sv b < length_sv a)"
proof -
  have nz: "[0x48, 0x69, 0 :: char_c] ! i \<noteq> 0" if "i < 2" for i
  proof -
    from that have "i = 0 \<or> i = 1" by arith
    then show ?thesis by auto
  qed
  have h1: "length [0x48, 0x69, 0 :: char_c] > 0 \<and>
            [0x48, 0x69, 0 :: char_c] ! (length [0x48, 0x69, 0 :: char_c] - 1) = 0 \<and>
            (\<forall>i<length [0x48, 0x69, 0 :: char_c] - 1. [0x48, 0x69, 0 :: char_c] ! i \<noteq> 0)"
    using nz by simp
  have h2: "\<exists>k<length [0x48, 0, 0x69, 0 :: char_c] - 1. [0x48, 0, 0x69, 0 :: char_c] ! k = 0"
    by (rule exI [of _ 1]) simp
  have first: "\<exists>a b. basic_string_view_array [0x48, 0x69, 0 :: char_c] = Inr a \<and>
          basic_string_view_ptr [0x48, 0x69, 0 :: char_c] = Some b \<and>
          length_sv a = 2 \<and> length_sv b = 2 \<and> operator_eq a b = Some True"
    using h1 literal_ctors_agree [of "[0x48, 0x69, 0 :: char_c]"]
    by (auto simp: numeral_2_eq_2)
  have second: "\<exists>a b. basic_string_view_array [0x48, 0, 0x69, 0 :: char_c] = Inr a \<and>
          basic_string_view_ptr [0x48, 0, 0x69, 0 :: char_c] = Some b \<and>
          length_sv b < length_sv a"
    using h2 literal_ctors_agree [of "[0x48, 0, 0x69, 0 :: char_c]"] by blast
  show ?thesis using first second by (rule conjI)
qed

end
